theory Spec2Isabelle
  imports Complex_Main
begin

section \<open>Python strings\<close>

text \<open>
  A string is a list of code points below U+0100 (ASCII and Latin-1), one \<open>char\<close>
  each.  \<open>str.lower\<close> maps the letters A to Z and the Latin-1 capitals U+00C0 to
  U+00DE (but not the multiplication sign U+00D7) to their small letters and leaves every
  other character alone; \<open>str.strip\<close> and \<open>str.split\<close> treat as white space the
  characters for which \<open>str.isspace\<close> holds: tab, line feed, vertical tab, form feed,
  carriage return, the separators U+001C to U+001F, space, next line (U+0085) and
  no-break space (U+00A0).
\<close>

definition is_space :: "char \<Rightarrow> bool" where
  "is_space c = (c \<in> set [CHR 0x09, CHR 0x0A, CHR 0x0B, CHR 0x0C, CHR 0x0D,
                            CHR 0x1C, CHR 0x1D, CHR 0x1E, CHR 0x1F, CHR 0x20,
                            CHR 0x85, CHR 0xA0])"

definition latin1_capitals :: "(char \<times> char) list" where
  "latin1_capitals =
        [(CHR 0xC0, CHR 0xE0),
         (CHR 0xC1, CHR 0xE1),
         (CHR 0xC2, CHR 0xE2),
         (CHR 0xC3, CHR 0xE3),
         (CHR 0xC4, CHR 0xE4),
         (CHR 0xC5, CHR 0xE5),
         (CHR 0xC6, CHR 0xE6),
         (CHR 0xC7, CHR 0xE7),
         (CHR 0xC8, CHR 0xE8),
         (CHR 0xC9, CHR 0xE9),
         (CHR 0xCA, CHR 0xEA),
         (CHR 0xCB, CHR 0xEB),
         (CHR 0xCC, CHR 0xEC),
         (CHR 0xCD, CHR 0xED),
         (CHR 0xCE, CHR 0xEE),
         (CHR 0xCF, CHR 0xEF),
         (CHR 0xD0, CHR 0xF0),
         (CHR 0xD1, CHR 0xF1),
         (CHR 0xD2, CHR 0xF2),
         (CHR 0xD3, CHR 0xF3),
         (CHR 0xD4, CHR 0xF4),
         (CHR 0xD5, CHR 0xF5),
         (CHR 0xD6, CHR 0xF6),
         (CHR 0xD8, CHR 0xF8),
         (CHR 0xD9, CHR 0xF9),
         (CHR 0xDA, CHR 0xFA),
         (CHR 0xDB, CHR 0xFB),
         (CHR 0xDC, CHR 0xFC),
         (CHR 0xDD, CHR 0xFD),
         (CHR 0xDE, CHR 0xFE)]"

definition lower_char :: "char \<Rightarrow> char" where
  "lower_char c =
     (case map_of (zip ''ABCDEFGHIJKLMNOPQRSTUVWXYZ'' ''abcdefghijklmnopqrstuvwxyz''
                   @ latin1_capitals) c of
        Some l \<Rightarrow> l
      | None \<Rightarrow> c)"

definition py_lower :: "string \<Rightarrow> string" where
  "py_lower s = map lower_char s"

definition py_strip :: "string \<Rightarrow> string" where
  "py_strip s = rev (dropWhile is_space (rev (dropWhile is_space s)))"

text \<open>\<open>s.split()\<close>: the maximal runs of non-space characters, in order.\<close>

fun split_ws :: "string \<Rightarrow> string \<Rightarrow> string list" where
  "split_ws cur [] = (if cur = [] then [] else [cur])"
| "split_ws cur (c # cs) =
     (if is_space c then (if cur = [] then split_ws [] cs else cur # split_ws [] cs)
      else split_ws (cur @ [c]) cs)"

definition py_split :: "string \<Rightarrow> string list" where
  "py_split s = split_ws [] s"

fun startswith :: "string \<Rightarrow> string \<Rightarrow> bool" where
  "startswith s [] = True"
| "startswith [] (p # ps) = False"
| "startswith (c # cs) (p # ps) = (c = p \<and> startswith cs ps)"

text \<open>\<open>py_in sub s\<close> is Python's \<open>sub in s\<close> on strings.\<close>

fun py_in :: "string \<Rightarrow> string \<Rightarrow> bool" where
  "py_in sub [] = (sub = [])"
| "py_in sub (c # cs) = (startswith (c # cs) sub \<or> py_in sub cs)"

definition endswith_s :: "string \<Rightarrow> bool" where
  "endswith_s s = (s \<noteq> [] \<and> last s = CHR ''s'')"

section \<open>Brand and category normalizer (text\_search\_api.py)\<close>

text \<open>The dictionary \<open>BRAND_MAPPING\<close>, in insertion order.\<close>

definition BRAND_MAPPING :: "(string \<times> string) list" where
  "BRAND_MAPPING =
   [(''fossil'', ''fossi_l''),
    (''tissot'', ''tisso_t''),
    (''armani'', ''arman_i''),
    (''tommy'', ''tomm_y''),
    (''tommy hilfiger'', ''tomm_y''),
    (''rolex'', ''role_x''),
    (''rado'', ''rad_o''),
    (''omega'', ''omeg_a''),
    (''patek'', ''Patek_Philippe''),
    (''patek philippe'', ''Patek_Philippe''),
    (''patek phillips'', ''Patek_Philippe''),
    (''hublot'', ''hublo_t''),
    (''cartier'', ''cartie_r''),
    (''ap'', ''Audemars''),
    (''audemars'', ''Audemars''),
    (''tag'', ''tag''),
    (''tag heuer'', ''tag''),
    (''tag huer'', ''tag''),
    (''mk'', ''mic''),
    (''michael kors'', ''mic''),
    (''alix'', ''alix''),
    (''naviforce'', ''naviforce''),
    (''reward'', ''reward''),
    (''ax'', ''ax''),
    (''armani exchange'', ''arman_i'')]"

definition normalize_brand_name :: "string \<Rightarrow> string" where
  "normalize_brand_name keyword =
     (let keyword_lower = py_strip (py_lower keyword) in
      case map_of BRAND_MAPPING keyword_lower of
        Some db_name \<Rightarrow> db_name
      | None \<Rightarrow>
          (case find (\<lambda>(user_name, db_name).
                        py_in user_name keyword_lower \<or> py_in keyword_lower user_name)
                     BRAND_MAPPING of
             Some (user_name, db_name) \<Rightarrow> db_name
           | None \<Rightarrow> keyword))"

definition GENERIC_TYPES :: "string list" where
  "GENERIC_TYPES = [''watch'', ''watches'', ''shoe'', ''shoes'', ''bag'', ''bags'',
                    ''sunglass'', ''sunglasses'']"

definition is_generic_type :: "string \<Rightarrow> bool" where
  "is_generic_type keyword = (py_lower keyword \<in> set GENERIC_TYPES)"

section \<open>The catalog store\<close>

text \<open>
  The MongoDB collection is a list of product documents in natural (insertion) order.
  A price is stored as a number (a double, \<open>PriceNum\<close> of its value), as text, or is
  absent.  A double is the rational number it stands for; the float arguments of the
  search functions are the values of Python floats.
\<close>

datatype price_field = PriceNum rat | PriceStr string | PriceMissing

record product =
  name :: string
  brand :: "string option"
  price :: price_field
  image_urls :: "string list"
  url :: string
  category :: string
  category_key :: string
  colors :: "string list"
  belt_type :: "string option"
  ai_category :: "string option"
  text_embedding :: "rat list option"

datatype error = OperationFailure

subsection \<open>Numeric coercion of the price field\<close>

definition digit_of :: "char \<Rightarrow> int option" where
  "digit_of c = map_of (zip ''0123456789'' [0, 1, 2, 3, 4, 5, 6, 7, 8, 9]) c"

fun digits_value :: "string \<Rightarrow> int \<Rightarrow> int option" where
  "digits_value [] acc = Some acc"
| "digits_value (c # cs) acc =
     (case digit_of c of None \<Rightarrow> None | Some d \<Rightarrow> digits_value cs (10 * acc + d))"

definition is_exp_char :: "char \<Rightarrow> bool" where
  "is_exp_char c = (c = CHR ''e'' \<or> c = CHR ''E'')"

text \<open>The exponent after \<open>e\<close>: an optional sign and at least one digit.\<close>

definition parse_exponent :: "string \<Rightarrow> int option" where
  "parse_exponent s =
     (case s of
        [] \<Rightarrow> None
      | c # cs \<Rightarrow>
          if c = CHR ''-'' then (if cs = [] then None else map_option uminus (digits_value cs 0))
          else if c = CHR ''+'' then (if cs = [] then None else digits_value cs 0)
          else digits_value s 0)"

text \<open>
  Decimal notation: digits with an optional fraction part (at least one digit in all)
  and an optional exponent.  The result is the fraction \<open>p / q\<close> that the text denotes,
  as the pair \<open>(p, q)\<close>.
\<close>

definition parse_unsigned :: "string \<Rightarrow> (int \<times> int) option" where
  "parse_unsigned s =
     (let mant = takeWhile (\<lambda>c. \<not> is_exp_char c) s;
          rest_e = dropWhile (\<lambda>c. \<not> is_exp_char c) s;
          ip = takeWhile (\<lambda>c. c \<noteq> CHR ''.'') mant;
          rest = dropWhile (\<lambda>c. c \<noteq> CHR ''.'') mant;
          fp = (if rest = [] then [] else tl rest)
      in if ip = [] \<and> fp = [] then None
         else (case (digits_value ip 0, digits_value fp 0,
                     if rest_e = [] then Some 0 else parse_exponent (tl rest_e)) of
                 (Some a, Some b, Some k) \<Rightarrow>
                   (let p = a * 10 ^ length fp + b; q = 10 ^ length fp
                    in Some (if 0 \<le> k then (p * 10 ^ nat k, q) else (p, q * 10 ^ nat (- k))))
               | _ \<Rightarrow> None))"

text \<open>A sign, then the unsigned number: the result says whether the number is negative.\<close>

definition parse_decimal :: "string \<Rightarrow> (bool \<times> int \<times> int) option" where
  "parse_decimal s =
     (case s of
        [] \<Rightarrow> None
      | c # cs \<Rightarrow>
          if c = CHR ''-'' then map_option (Pair True) (parse_unsigned cs)
          else if c = CHR ''+'' then map_option (Pair False) (parse_unsigned cs)
          else map_option (Pair False) (parse_unsigned s))"

text \<open>
  The double nearest to a positive fraction \<open>p / q\<close>.  \<open>normalize_binary\<close> scales the
  fraction by powers of two until it lies between \<open>2 ^ 52\<close> and \<open>2 ^ 53\<close>, keeping
  \<open>p / q * 2 ^ e\<close> fixed; the 53-bit significand is the scaled fraction rounded to the
  nearest integer, ties to even.  A value outside the range of the normal doubles is
  out of range (\<open>None\<close>); 1200 steps are enough for every value in range.
\<close>

fun normalize_binary :: "nat \<Rightarrow> int \<Rightarrow> int \<Rightarrow> int \<Rightarrow> (int \<times> int \<times> int) option" where
  "normalize_binary fuel p q e =
     (if fuel = 0 then None
      else if p < 2 ^ 52 * q then normalize_binary (fuel - 1) (2 * p) q (e - 1)
      else if 2 ^ 53 * q \<le> p then normalize_binary (fuel - 1) p (2 * q) (e + 1)
      else Some (p, q, e))"

declare normalize_binary.simps [simp del]

definition round_half_even :: "int \<Rightarrow> int \<Rightarrow> int" where
  "round_half_even p q =
     (let m = p div q; r = p mod q
      in if 2 * r < q then m else if q < 2 * r then m + 1 else if even m then m else m + 1)"

definition pow2 :: "int \<Rightarrow> rat" where
  "pow2 e = (if 0 \<le> e then 2 ^ nat e else 1 / 2 ^ nat (- e))"

definition nearest_double :: "int \<Rightarrow> int \<Rightarrow> rat option" where
  "nearest_double p q =
     (if p = 0 then Some 0
      else (case normalize_binary 1200 p q 0 of
              None \<Rightarrow> None
            | Some (p', q', e) \<Rightarrow>
                let m = round_half_even p' q' in
                if e < - 1074 \<or> 971 < e \<or> (e = 971 \<and> m = 2 ^ 53) then None
                else Some (of_int m * pow2 e)))"

text \<open>
  The aggregation operator \<open>$toDouble\<close>: a number is itself, an absent field is null
  (\<open>None\<close>), text in decimal notation is the double nearest to the number it denotes,
  and text that is no number, or a number out of range, makes the whole query fail.
  The other notations that the conversion reads (hexadecimal, infinities, not-a-number)
  are not part of the model; the scrapers write digits with an optional fraction.
\<close>

definition toDouble :: "price_field \<Rightarrow> error + rat option" where
  "toDouble p =
     (case p of
        PriceNum r \<Rightarrow> Inr (Some r)
      | PriceMissing \<Rightarrow> Inr None
      | PriceStr s \<Rightarrow>
          (case parse_decimal s of
             None \<Rightarrow> Inl OperationFailure
           | Some (negative, p, q) \<Rightarrow>
               (case nearest_double p q of
                  None \<Rightarrow> Inl OperationFailure
                | Some r \<Rightarrow> Inr (Some (if negative then - r else r)))))"

subsection \<open>Regular expressions built by the keyword search\<close>

text \<open>
  The search only compiles patterns of the form \<open>re.escape(w)\<close> and
  \<open>re.escape(w) + "e?s?"\<close> with the flag \<open>IGNORECASE\<close>: a sequence of literal
  characters and optional characters, compared without regard to case.
\<close>

datatype rx = Lit char | Opt char

fun rx_match_here :: "rx list \<Rightarrow> string \<Rightarrow> bool" where
  "rx_match_here [] s = True"
| "rx_match_here (Lit c # r) s =
     (case s of [] \<Rightarrow> False | d # t \<Rightarrow> lower_char d = lower_char c \<and> rx_match_here r t)"
| "rx_match_here (Opt c # r) s =
     ((case s of [] \<Rightarrow> False | d # t \<Rightarrow> lower_char d = lower_char c \<and> rx_match_here r t)
      \<or> rx_match_here r s)"

text \<open>Unanchored search, as \<open>$regex\<close> does.\<close>

fun rx_search :: "rx list \<Rightarrow> string \<Rightarrow> bool" where
  "rx_search p [] = rx_match_here p []"
| "rx_search p (c # cs) = (rx_match_here p (c # cs) \<or> rx_search p cs)"

subsection \<open>Filters and \<open>find\<close>\<close>

datatype cmp = Gte rat | Lte rat

text \<open>
  Comparison in an aggregation expression follows the BSON order, in which null sorts
  before every number.
\<close>

fun eval_cmp :: "cmp \<Rightarrow> rat option \<Rightarrow> bool" where
  "eval_cmp (Gte m) None = False"
| "eval_cmp (Gte m) (Some r) = (m \<le> r)"
| "eval_cmp (Lte m) None = True"
| "eval_cmp (Lte m) (Some r) = (r \<le> m)"

datatype cond =
    NameRegex "rx list"
  | CategoryKeyEq string
  | PriceExpr "cmp list"

fun expr_and :: "cmp list \<Rightarrow> price_field \<Rightarrow> error + bool" where
  "expr_and [] p = Inr True"
| "expr_and (c # cs) p =
     (case toDouble p of
        Inl e \<Rightarrow> Inl e
      | Inr v \<Rightarrow> if eval_cmp c v then expr_and cs p else Inr False)"

fun matches :: "cond \<Rightarrow> product \<Rightarrow> error + bool" where
  "matches (NameRegex p) d = Inr (rx_search p (name d))"
| "matches (CategoryKeyEq c) d = Inr (category_key d = c)"
| "matches (PriceExpr cs) d = expr_and cs (price d)"

text \<open>The conjunction of a filter's conditions, left to right, stopping at the first
  condition that fails.\<close>

fun matches_all :: "cond list \<Rightarrow> product \<Rightarrow> error + bool" where
  "matches_all [] d = Inr True"
| "matches_all (c # cs) d =
     (case matches c d of
        Inl e \<Rightarrow> Inl e
      | Inr b \<Rightarrow> if b then matches_all cs d else Inr False)"

text \<open>
  The cursor scans the documents in order and stops once the limit is reached;
  \<open>None\<close> is no limit.
\<close>

fun scan :: "cond list \<Rightarrow> nat option \<Rightarrow> product list \<Rightarrow> error + product list" where
  "scan cs remaining [] = Inr []"
| "scan cs remaining (d # ds) =
     (if remaining = Some 0 then Inr []
      else (case matches_all cs d of
              Inl e \<Rightarrow> Inl e
            | Inr b \<Rightarrow>
                if b then (case scan cs (map_option (\<lambda>k. k - 1) remaining) ds of
                             Inl e \<Rightarrow> Inl e
                           | Inr rs \<Rightarrow> Inr (d # rs))
                else scan cs remaining ds))"

text \<open>\<open>cursor.limit(n)\<close>: zero is no limit, and a negative limit counts as its absolute
  value.\<close>

definition cursor_limit :: "int \<Rightarrow> nat option" where
  "cursor_limit n = (if n = 0 then None else Some (nat \<bar>n\<bar>))"

definition find_limit :: "product list \<Rightarrow> cond list \<Rightarrow> int \<Rightarrow> error + product list" where
  "find_limit collection conds max_results = scan conds (cursor_limit max_results) collection"

section \<open>Keyword search (text\_search\_api.py)\<close>

definition tokenize :: "string \<Rightarrow> string list" where
  "tokenize query =
     map (\<lambda>kw. py_lower (py_strip kw))
         (filter (\<lambda>kw. 1 < length (py_strip kw)) (py_split (py_strip query)))"

text \<open>The loop over \<open>keywords\<close> that normalizes each token and skips generic product
  types when there is more than one token.\<close>

fun essential_keywords :: "nat \<Rightarrow> string list \<Rightarrow> string list" where
  "essential_keywords n [] = []"
| "essential_keywords n (keyword # rest) =
     (let normalized = normalize_brand_name keyword in
      if is_generic_type normalized \<and> 1 < n then essential_keywords n rest
      else normalized # essential_keywords n rest)"

definition build_pattern :: "string \<Rightarrow> rx list" where
  "build_pattern keyword =
     (if endswith_s keyword then map Lit (butlast keyword) @ [Opt (CHR ''e''), Opt (CHR ''s'')]
      else if keyword \<in> set [''watch'', ''shoe'', ''bag'', ''glass'', ''sunglass'']
      then map Lit keyword @ [Opt (CHR ''e''), Opt (CHR ''s'')]
      else map Lit keyword)"

text \<open>Python truthiness of an optional string: \<open>None\<close> and the empty string are false.\<close>

fun truthy :: "string option \<Rightarrow> bool" where
  "truthy None = False"
| "truthy (Some s) = (s \<noteq> [])"

definition price_conditions :: "rat option \<Rightarrow> rat option \<Rightarrow> cmp list" where
  "price_conditions min_price max_price =
     (case min_price of None \<Rightarrow> [] | Some lo \<Rightarrow> [Gte lo])
     @ (case max_price of None \<Rightarrow> [] | Some hi \<Rightarrow> [Lte hi])"

definition and_conditions ::
  "string list \<Rightarrow> string option \<Rightarrow> rat option \<Rightarrow> rat option \<Rightarrow> cond list" where
  "and_conditions keywords category_filter min_price max_price =
     map (\<lambda>keyword. NameRegex (build_pattern keyword))
         (essential_keywords (length keywords) keywords)
     @ (if truthy category_filter then [CategoryKeyEq (the category_filter)] else [])
     @ (if min_price \<noteq> None \<or> max_price \<noteq> None
        then [PriceExpr (price_conditions min_price max_price)] else [])"

definition search_products_by_text ::
  "product list \<Rightarrow> string \<Rightarrow> int \<Rightarrow> string option \<Rightarrow> rat option \<Rightarrow> rat option
   \<Rightarrow> error + product list" where
  "search_products_by_text collection query max_results category_filter min_price max_price =
     (let keywords = tokenize query in
      if keywords = [] \<and> \<not> truthy category_filter then Inr []
      else
        let conds = and_conditions keywords category_filter min_price max_price in
        if conds = [] then Inr []
        else find_limit collection conds max_results)"

section \<open>Price-range search (text\_search\_api.py)\<close>

text \<open>The function catches every exception of the query and returns the empty list.\<close>

definition range_conditions :: "string \<Rightarrow> rat \<Rightarrow> rat \<Rightarrow> cond list" where
  "range_conditions category' min_price max_price =
     [CategoryKeyEq (py_lower category'), PriceExpr [Gte min_price, Lte max_price]]"

definition search_products_by_price_range ::
  "product list \<Rightarrow> string \<Rightarrow> rat \<Rightarrow> rat \<Rightarrow> int \<Rightarrow> product list" where
  "search_products_by_price_range collection category' min_price max_price max_results =
     (case find_limit collection (range_conditions category' min_price max_price)
             max_results of
        Inl e \<Rightarrow> []
      | Inr results \<Rightarrow> results)"

record RangeSearchRequest =
  rq_category :: string
  rq_min_price :: rat
  rq_max_price :: rat
  rq_max_results :: int

record product_data =
  pd_product_name :: string
  pd_price :: price_field
  pd_product_url :: string
  pd_images :: "string list"
  pd_image_count :: nat

datatype http_error = HTTPException nat string

datatype range_response = NoMatch404 | Success "product_data list"

text \<open>The store as the endpoint sees it: the documents, and how many queries have been
  run against them.\<close>

record store =
  docs :: "product list"
  queries :: nat

definition format_product :: "product \<Rightarrow> product_data" where
  "format_product p =
     \<lparr>pd_product_name = name p, pd_price = price p, pd_product_url = url p,
      pd_images = image_urls p, pd_image_count = length (image_urls p)\<rparr>"

definition search_products_in_range ::
  "RangeSearchRequest \<Rightarrow> store \<Rightarrow> (http_error + range_response) \<times> store" where
  "search_products_in_range request st =
     (if rq_category request = [] \<or> length (py_strip (rq_category request)) < 2
      then (Inl (HTTPException 400 ''Category must be at least 2 characters''), st)
      else if rq_min_price request < 0 \<or> rq_max_price request < 0
      then (Inl (HTTPException 400 ''Prices must be positive''), st)
      else if rq_min_price request > rq_max_price request
      then (Inl (HTTPException 400 ''Min price cannot be greater than max price''), st)
      else
        let products = search_products_by_price_range (docs st) (rq_category request)
                         (rq_min_price request) (rq_max_price request) (rq_max_results request);
            st' = st\<lparr>queries := queries st + 1\<rparr>
        in if products = [] then (Inr NoMatch404, st')
           else (Inr (Success (map format_product products)), st'))"

section \<open>Example catalogs\<close>

definition example_product :: "string \<Rightarrow> string \<Rightarrow> price_field \<Rightarrow> string list \<Rightarrow> product" where
  "example_product n ck p imgs =
     \<lparr>name = n, brand = None, price = p, image_urls = imgs, url = [], category = [],
      category_key = ck, colors = [], belt_type = None, ai_category = None,
      text_embedding = None\<rparr>"

definition scoping_catalog :: "product list" where
  "scoping_catalog =
     [example_product ''Role_x Submariner'' ''mens_watch'' (PriceStr ''2500.00'') [],
      example_product ''Role_x Aviator'' ''womens_sunglasses'' (PriceStr ''900.00'') []]"

definition classic_catalog :: "product list" where
  "classic_catalog = [example_product ''Classic Watch'' ''mens_watch'' (PriceStr ''1500.00'') [''w1.jpg'']]"

definition strap_catalog :: "product list" where
  "strap_catalog =
     [example_product ''Leather Strap Brown'' ''mens_watch'' (PriceStr ''450.00'') [''s1.jpg''],
      example_product ''Audemars Royal Oak'' ''mens_watch'' (PriceStr ''5200.00'') [''a1.jpg'']]"

definition range_catalog :: "product list" where
  "range_catalog =
     [example_product ''Fossi_l Grant'' ''mens_watch'' (PriceStr ''1500.00'') [''g1.jpg''],
      example_product ''Tisso_t PRX'' ''mens_watch'' (PriceNum 2000) [''p1.jpg''],
      example_product ''Omeg_a Speed'' ''mens_watch'' (PriceStr ''2000.50'') [''o1.jpg''],
      example_product ''Fossi_l Carlie'' ''womens_watch'' (PriceStr ''1600'') [''c1.jpg''],
      example_product ''Rad_o True'' ''mens_watch'' (PriceStr ''1499.50'') [''r1.jpg'']]"

definition range_request :: "string \<Rightarrow> rat \<Rightarrow> rat \<Rightarrow> int \<Rightarrow> RangeSearchRequest" where
  "range_request c lo hi n =
     \<lparr>rq_category = c, rq_min_price = lo, rq_max_price = hi, rq_max_results = n\<rparr>"

section \<open>Vector and hybrid search (gemini\_vector\_search.py)\<close>

text \<open>
  The embedding service and the similarity of the vector index are parameters:
  \<open>embed_content text\<close> is the vector the service returns, or \<open>None\<close> when the call
  raises; \<open>sim q e\<close> is the score of a stored vector \<open>e\<close> for the query vector \<open>q\<close>.
\<close>

type_synonym embedding = "rat list"

definition generate_text_embedding :: "(string \<Rightarrow> embedding option) \<Rightarrow> string \<Rightarrow> embedding" where
  "generate_text_embedding embed_content text =
     (case embed_content text of None \<Rightarrow> [] | Some e \<Rightarrow> e)"

text \<open>
  The stage \<open>$vectorSearch\<close>: the documents that carry an embedding, each with its score,
  by descending score (ties in collection order), cut to \<open>limit\<close>.  The stage fails
  unless \<open>0 < limit \<le> numCandidates\<close>.  The nearest-neighbour ranking is taken as exact.
\<close>

definition scored :: "(embedding \<Rightarrow> embedding \<Rightarrow> rat) \<Rightarrow> embedding \<Rightarrow> product list
                      \<Rightarrow> (product \<times> rat) list" where
  "scored sim q collection =
     concat (map (\<lambda>d. case text_embedding d of None \<Rightarrow> [] | Some e \<Rightarrow> [(d, sim q e)]) collection)"

definition ranked :: "(embedding \<Rightarrow> embedding \<Rightarrow> rat) \<Rightarrow> embedding \<Rightarrow> product list
                      \<Rightarrow> (product \<times> rat) list" where
  "ranked sim q collection = sort_key (\<lambda>r. - snd r) (scored sim q collection)"

definition vectorSearch ::
  "(embedding \<Rightarrow> embedding \<Rightarrow> rat) \<Rightarrow> product list \<Rightarrow> embedding \<Rightarrow> int \<Rightarrow> int
   \<Rightarrow> error + (product \<times> rat) list" where
  "vectorSearch sim collection queryVector numCandidates limit =
     (if limit \<le> 0 \<or> numCandidates < limit then Inl OperationFailure
      else Inr (take (nat limit) (ranked sim queryVector collection)))"

definition vector_search ::
  "(embedding \<Rightarrow> embedding \<Rightarrow> rat) \<Rightarrow> (string \<Rightarrow> embedding option) \<Rightarrow> product list
   \<Rightarrow> string \<Rightarrow> int \<Rightarrow> (product \<times> rat) list" where
  "vector_search sim embed_content collection query limit =
     (let query_embedding = generate_text_embedding embed_content query in
      if query_embedding = [] then []
      else (case vectorSearch sim collection query_embedding 100 limit of
              Inl e \<Rightarrow> []
            | Inr results \<Rightarrow> results))"

subsection \<open>The filter dictionary and the \<open>$match\<close> stage\<close>

record filters =
  f_colors :: "string list option"
  f_brand :: "string option"
  f_price_max :: "int option"
  f_belt_type :: "string option"
  f_ai_category :: "string option"

text \<open>\<open>str(n)\<close> for a Python integer.\<close>

definition digit_char :: "nat \<Rightarrow> char" where
  "digit_char d = ''0123456789'' ! (d mod 10)"

function nat_digits :: "nat \<Rightarrow> string" where
  "nat_digits n = (if n < 10 then [digit_char n] else nat_digits (n div 10) @ [digit_char (n mod 10)])"
  by pat_completeness auto
termination
  by (relation "measure id") auto

declare nat_digits.simps [simp del]

definition py_str :: "int \<Rightarrow> string" where
  "py_str i = (if i < 0 then CHR ''-'' # nat_digits (nat (- i)) else nat_digits (nat i))"

text \<open>Comparison of two strings in the store: lexicographic, by character code.\<close>

fun str_le :: "string \<Rightarrow> string \<Rightarrow> bool" where
  "str_le [] t = True"
| "str_le (c # cs) [] = False"
| "str_le (c # cs) (d # ds) =
     ((of_char c :: nat) < of_char d \<or> (c = d \<and> str_le cs ds))"

datatype match_cond =
    ColorsIn "string list"
  | BrandRegex string
  | PriceLte string
  | BeltTypeEq string
  | AiCategoryEq string

text \<open>
  A query comparison only compares values of the same type: \<open>{"$lte": "2000"}\<close> matches
  a price stored as text that is at most "2000" in string order, and no price stored as
  a number.  The brand filter is a case-insensitive \<open>$regex\<close>; its text is taken
  literally (a filter holding regex metacharacters is outside the model).
\<close>

fun match_cond_holds :: "match_cond \<Rightarrow> product \<Rightarrow> bool" where
  "match_cond_holds (ColorsIn cs) d = list_ex (\<lambda>c. c \<in> set cs) (colors d)"
| "match_cond_holds (BrandRegex r) d =
     (case brand d of None \<Rightarrow> False | Some b \<Rightarrow> rx_search (map Lit r) b)"
| "match_cond_holds (PriceLte s) d =
     (case price d of PriceStr p \<Rightarrow> str_le p s | _ \<Rightarrow> False)"
| "match_cond_holds (BeltTypeEq b) d = (belt_type d = Some b)"
| "match_cond_holds (AiCategoryEq a) d = (ai_category d = Some a)"

definition match_stage :: "filters option \<Rightarrow> match_cond list" where
  "match_stage fs =
     (case fs of
        None \<Rightarrow> []
      | Some f \<Rightarrow>
          (case f_colors f of None \<Rightarrow> [] | Some cs \<Rightarrow> if cs \<noteq> [] then [ColorsIn cs] else [])
          @ (case f_brand f of None \<Rightarrow> [] | Some b \<Rightarrow> if b \<noteq> [] then [BrandRegex b] else [])
          @ (case f_price_max f of None \<Rightarrow> [] | Some m \<Rightarrow> if m \<noteq> 0 then [PriceLte (py_str m)] else [])
          @ (case f_belt_type f of None \<Rightarrow> [] | Some b \<Rightarrow> if b \<noteq> [] then [BeltTypeEq b] else [])
          @ (case f_ai_category f of None \<Rightarrow> [] | Some a \<Rightarrow> if a \<noteq> [] then [AiCategoryEq a] else []))"

text \<open>
  The pipeline of \<open>hybrid_search\<close>: \<open>$vectorSearch\<close> with limit \<open>limit * 3\<close> and 200
  candidates, \<open>$match\<close> when the match stage is not empty, the projection (which keeps
  the score), and \<open>$limit\<close>.  Every exception gives the empty list.
\<close>

definition hybrid_search ::
  "(embedding \<Rightarrow> embedding \<Rightarrow> rat) \<Rightarrow> (string \<Rightarrow> embedding option) \<Rightarrow> product list
   \<Rightarrow> string \<Rightarrow> filters option \<Rightarrow> int \<Rightarrow> (product \<times> rat) list" where
  "hybrid_search sim embed_content collection query fs limit =
     (let query_embedding = generate_text_embedding embed_content query in
      if query_embedding = [] then []
      else (case vectorSearch sim collection query_embedding 200 (limit * 3) of
              Inl e \<Rightarrow> []
            | Inr candidates \<Rightarrow>
                take (nat limit)
                  (filter (\<lambda>r. list_all (\<lambda>c. match_cond_holds c (fst r)) (match_stage fs))
                     candidates)))"

definition dot :: "embedding \<Rightarrow> embedding \<Rightarrow> rat" where
  "dot q e = sum_list (map2 (*) q e)"

definition indexed_product :: "string \<Rightarrow> price_field \<Rightarrow> embedding \<Rightarrow> product" where
  "indexed_product n p e =
     \<lparr>name = n, brand = None, price = p, image_urls = [], url = [], category = [],
      category_key = ''mens_watch'', colors = [], belt_type = None, ai_category = None,
      text_embedding = Some e\<rparr>"

definition vector_catalog :: "product list" where
  "vector_catalog =
     [indexed_product ''Budget Black'' (PriceStr ''999.00'') [1, 0],
      indexed_product ''Luxury Black'' (PriceStr ''10000.00'') [1, 1]]"

definition price_ceiling :: "int \<Rightarrow> filters" where
  "price_ceiling m =
     \<lparr>f_colors = None, f_brand = None, f_price_max = Some m, f_belt_type = None,
      f_ai_category = None\<rparr>"

definition unit_embedding :: "string \<Rightarrow> embedding option" where
  "unit_embedding text = Some [1, 0]"

definition failing_embedding :: "string \<Rightarrow> embedding option" where
  "failing_embedding text = None"

section \<open>The image-list endpoint (text\_search\_api.py)\<close>

text \<open>
  \<open>download url\<close> is the base64 text of the image at \<open>url\<close>, or \<open>None\<close> when the
  download fails.  \<open>download_all_images_parallel\<close> keeps the successful, non-empty
  downloads in the order of the URLs.
\<close>

definition download_all_images_parallel :: "(string \<Rightarrow> string option) \<Rightarrow> string list \<Rightarrow> string list" where
  "download_all_images_parallel download image_urls' =
     List.map_filter
       (\<lambda>u. case download u of None \<Rightarrow> None | Some b \<Rightarrow> if b \<noteq> [] then Some b else None)
       image_urls'"

record mapping_entry =
  me_product_name :: string
  me_price :: price_field
  me_product_url :: string
  me_start_index :: nat
  me_image_count :: nat

text \<open>The first loop of \<open>search_and_get_images\<close>; \<open>n\<close> is \<open>len(all_image_urls)\<close> so far.\<close>

fun product_image_mapping :: "nat \<Rightarrow> product list \<Rightarrow> mapping_entry list" where
  "product_image_mapping n [] = []"
| "product_image_mapping n (p # ps) =
     (if image_urls p \<noteq> []
      then \<lparr>me_product_name = name p, me_price = price p, me_product_url = url p,
            me_start_index = n, me_image_count = length (image_urls p)\<rparr>
           # product_image_mapping (n + length (image_urls p)) ps
      else product_image_mapping n ps)"

definition all_image_urls :: "product list \<Rightarrow> string list" where
  "all_image_urls products = concat (map image_urls products)"

record image_product =
  ip_product_name :: string
  ip_price :: price_field
  ip_product_url :: string
  ip_images_base64 :: "string list"
  ip_total_images :: nat

definition product_images :: "string list \<Rightarrow> mapping_entry \<Rightarrow> string list" where
  "product_images base64_images e =
     map (\<lambda>i. base64_images ! i)
         (filter (\<lambda>i. i < length base64_images)
                 [me_start_index e ..< me_start_index e + me_image_count e])"

text \<open>The second loop: an entry with no image left for it is not reported.\<close>

fun image_results :: "string list \<Rightarrow> mapping_entry list \<Rightarrow> image_product list" where
  "image_results base64_images [] = []"
| "image_results base64_images (e # es) =
     (if product_images base64_images e \<noteq> []
      then \<lparr>ip_product_name = me_product_name e, ip_price = me_price e,
            ip_product_url = me_product_url e,
            ip_images_base64 = product_images base64_images e,
            ip_total_images = length (product_images base64_images e)\<rparr>
           # image_results base64_images es
      else image_results base64_images es)"

datatype images_response = ImagesNoMatch | ImagesSuccess "image_product list"

text \<open>
  The request model \<open>SearchRequest\<close> has the fields \<open>query\<close>, \<open>max_results\<close>,
  \<open>min_price\<close> and \<open>max_price\<close> only, and the endpoint passes \<open>None\<close> as the category
  filter of the search.  An exception of the search is the status 500.
\<close>

definition search_and_get_images ::
  "product list \<Rightarrow> (string \<Rightarrow> string option) \<Rightarrow> string \<Rightarrow> int \<Rightarrow> rat option \<Rightarrow> rat option
   \<Rightarrow> http_error + images_response" where
  "search_and_get_images collection download query max_results min_price max_price =
     (if query = [] \<or> length (py_strip query) < 2
      then Inl (HTTPException 400 ''Query must be at least 2 characters'')
      else (case search_products_by_text collection query max_results None min_price max_price of
              Inl e \<Rightarrow> Inl (HTTPException 500 ''Internal Server Error'')
            | Inr products \<Rightarrow>
                if products = [] then Inr ImagesNoMatch
                else Inr (ImagesSuccess
                       (image_results
                          (download_all_images_parallel download (all_image_urls products))
                          (product_image_mapping 0 products)))))"

section \<open>Sending products and pagination (main.py)\<close>

datatype message =
    Intro nat string nat nat nat
  | Completion bool
  | Exhausted nat string
  | NoProductsFound string
  | BrandsIntro
  | NoBrandProducts
  | RangeIntro nat string nat
  | RangeNoProducts string
  | RangeSearchFailed
  | OrderConfirmed
  | OrderFailed

datatype effect =
    SearchRequest string
  | RangeSearchRequest string
  | SendText message
  | SendMedia image_product
  | SendMediaUrl product_data
  | OtherHandling

text \<open>
  \<open>forward_media p\<close> tells whether the channel delivers the first image of \<open>p\<close>.  The
  products of a batch are sent by a thread pool; the trace lists them in batch order.
  The search request is posted with \<open>max_results = 50\<close>; the \<open>category_filter\<close> entry of
  the payload is not a field of the request model of the endpoint.  The writes to the
  product cache of the orchestrator are not part of the model.
\<close>

definition send_single_product :: "(image_product \<Rightarrow> bool) \<Rightarrow> image_product \<Rightarrow> bool" where
  "send_single_product forward_media p =
     (if ip_images_base64 p = [] then False else forward_media p)"

definition send_product_images_v2 ::
  "product list \<Rightarrow> (string \<Rightarrow> string option) \<Rightarrow> (image_product \<Rightarrow> bool)
   \<Rightarrow> string \<Rightarrow> nat \<Rightarrow> nat \<Rightarrow> rat option \<Rightarrow> rat option \<Rightarrow> string option
   \<Rightarrow> (bool \<times> nat \<times> nat) \<times> effect list" where
  "send_product_images_v2 collection download forward_media keyword start_index batch_size
     min_price max_price category_key' =
     (if keyword = [] \<or> length (py_strip keyword) < 2 then ((False, 0, 0), [])
      else (case search_and_get_images collection download keyword 50 min_price max_price of
              Inl e \<Rightarrow> ((False, 0, 0), [SearchRequest keyword])
            | Inr ImagesNoMatch \<Rightarrow> ((False, 0, 0), [SearchRequest keyword])
            | Inr (ImagesSuccess all_products) \<Rightarrow>
                if all_products = [] then ((False, 0, 0), [SearchRequest keyword])
                else
                  let total_found = length all_products;
                      end_index = min (start_index + batch_size) total_found;
                      products_to_send = take (end_index - start_index) (drop start_index all_products);
                      success_count = length (filter (send_single_product forward_media) products_to_send)
                  in ((True, total_found, success_count),
                      [SearchRequest keyword,
                       SendText (Intro total_found keyword (length products_to_send)
                                   (start_index + 1) end_index)]
                      @ map SendMedia (filter (\<lambda>p. ip_images_base64 p \<noteq> []) products_to_send)
                      @ (if 0 < success_count then [SendText (Completion (end_index < total_found))]
                         else []))))"

record search_ctx =
  ctx_keyword :: string
  ctx_total_found :: nat
  ctx_sent_count :: nat
  ctx_min_price :: "rat option"
  ctx_max_price :: "rat option"
  ctx_category_key :: "string option"

type_synonym contexts = "string \<rightharpoonup> search_ctx"

text \<open>
  Modelled from the spec: \<open>save_search_context\<close> and \<open>get_search_context\<close> of the
  orchestrator (module \<open>agent_orchestrator\<close>, not among the sources).  Saving is an
  unconditional overwrite of the session of that conversation; getting returns the
  session or nothing.
\<close>

definition save_search_context ::
  "contexts \<Rightarrow> string \<Rightarrow> string \<Rightarrow> nat \<Rightarrow> nat \<Rightarrow> rat option \<Rightarrow> rat option \<Rightarrow> string option
   \<Rightarrow> contexts" where
  "save_search_context cs phone_number keyword total_found sent_count min_price max_price
     category_key' =
     cs(phone_number \<mapsto>
          \<lparr>ctx_keyword = keyword, ctx_total_found = total_found, ctx_sent_count = sent_count,
           ctx_min_price = min_price, ctx_max_price = max_price,
           ctx_category_key = category_key'\<rparr>)"

definition get_search_context :: "contexts \<Rightarrow> string \<Rightarrow> search_ctx option" where
  "get_search_context cs phone_number = cs phone_number"

text \<open>
  The action the classifier returns for a message, with the entries of its metadata
  that the handler reads (the classifier is an external collaborator):
  \<^item> \<open>ShowMore\<close>: \<open>show_more\<close>;
  \<^item> \<open>FindProduct\<close>: \<open>find_product\<close> with the keyword, the category key and the
    price bounds;
  \<^item> \<open>ShowAllBrands\<close>: \<open>show_all_brands\<close> with the category key and the price bounds;
  \<^item> \<open>FindProductByRange\<close>: \<open>find_product_by_range\<close> with the category, the price
    bounds and the product name under which the session is saved;
  \<^item> \<open>SaveOrder\<close>: \<open>save_order_direct\<close> or \<open>save_data_to_google_sheet\<close>, with the
    result of storing the order;
  \<^item> \<open>OtherAction\<close>: every other action (\<open>ask_category_selection\<close>,
    \<open>send_all_images\<close>, \<open>ai_chat\<close>, \<open>ai_response\<close>, or none of the chain); their
    branches neither read nor write the search context.
\<close>

datatype action =
    ShowMore
  | FindProduct string "string option" "rat option" "rat option"
  | ShowAllBrands "string option" "rat option" "rat option"
  | FindProductByRange string "rat option" "rat option" string
  | SaveOrder bool
  | OtherAction

subsection \<open>The brand list\<close>

definition priority_brands :: "string list" where
  "priority_brands = [''fossil'', ''rolex'', ''armani'', ''omega'']"

text \<open>The loop over the priority brands: the number of products sent, and the trace.\<close>

fun show_all_brands_loop ::
  "product list \<Rightarrow> (string \<Rightarrow> string option) \<Rightarrow> (image_product \<Rightarrow> bool)
   \<Rightarrow> string option \<Rightarrow> rat option \<Rightarrow> rat option \<Rightarrow> string list \<Rightarrow> nat \<times> effect list" where
  "show_all_brands_loop collection download forward_media category_key' min_price max_price [] =
     (0, [])"
| "show_all_brands_loop collection download forward_media category_key' min_price max_price
     (brand_name # rest) =
     (case send_product_images_v2 collection download forward_media brand_name 0 3
             min_price max_price category_key' of
        ((success, total_found, sent_count), effects) \<Rightarrow>
          (case show_all_brands_loop collection download forward_media category_key'
                  min_price max_price rest of
             (n, later) \<Rightarrow> ((if success then sent_count else 0) + n, effects @ later)))"

subsection \<open>The range search of the webhook\<close>

text \<open>
  The branch posts the request to the endpoint \<open>/search/range\<close> with
  \<open>max_results = 50\<close>; a bound that the metadata lacks is a null in the request, which the
  endpoint refuses.  Every answer other than status 200 gives the same message.

  \<open>range_forward p\<close> is the result of the call \<open>whatsapp.forward_media(...)\<close> for the
  first image of \<open>p\<close> inside its \<open>try\<close>: false when the call raises.  The class
  \<open>WhatsAppHandler\<close> of \<open>main.py\<close> defines \<open>send_message\<close>,
  \<open>forward_media_with_base64\<close> and \<open>send_media_via_url\<close> and no method
  \<open>forward_media\<close>, so with that handler the call raises and \<open>range_forward\<close> is
  \<open>no_forward_media\<close>.
\<close>

definition no_forward_media :: "product_data \<Rightarrow> bool" where
  "no_forward_media p = False"

definition range_send_single_product :: "(product_data \<Rightarrow> bool) \<Rightarrow> product_data \<Rightarrow> bool" where
  "range_send_single_product range_forward p =
     (if pd_images p = [] then False else range_forward p)"

definition post_search_range ::
  "product list \<Rightarrow> string \<Rightarrow> rat option \<Rightarrow> rat option \<Rightarrow> http_error + range_response" where
  "post_search_range collection category' min_price max_price =
     (case (min_price, max_price) of
        (Some lo, Some hi) \<Rightarrow>
          fst (search_products_in_range
                 \<lparr>rq_category = category', rq_min_price = lo, rq_max_price = hi,
                  rq_max_results = 50\<rparr>
                 \<lparr>docs = collection, queries = 0\<rparr>)
      | _ \<Rightarrow> Inl (HTTPException 422 ''Unprocessable Entity''))"

definition find_product_by_range ::
  "product list \<Rightarrow> (product_data \<Rightarrow> bool) \<Rightarrow> contexts \<Rightarrow> string
   \<Rightarrow> string \<Rightarrow> rat option \<Rightarrow> rat option \<Rightarrow> string \<Rightarrow> effect list \<times> contexts" where
  "find_product_by_range collection range_forward cs phone_number category' min_price max_price
     product_name =
     (case post_search_range collection category' min_price max_price of
        Inl e \<Rightarrow> ([RangeSearchRequest category', SendText RangeSearchFailed], cs)
      | Inr NoMatch404 \<Rightarrow> ([RangeSearchRequest category', SendText RangeSearchFailed], cs)
      | Inr (Success all_products) \<Rightarrow>
          if all_products = []
          then ([RangeSearchRequest category', SendText (RangeNoProducts category')], cs)
          else
            let total_found = length all_products;
                products_to_send = take 10 all_products;
                sent_count = length products_to_send;
                success_count =
                  length (filter (range_send_single_product range_forward) products_to_send);
                sending =
                  [RangeSearchRequest category',
                   SendText (RangeIntro total_found category' sent_count)]
                  @ map SendMediaUrl (filter (\<lambda>p. pd_images p \<noteq> []) products_to_send)
            in if 0 < success_count
               then (sending @ [SendText (Completion (sent_count < total_found))],
                     save_search_context cs phone_number product_name total_found sent_count
                       None None None)
               else (sending, cs))"

subsection \<open>The chain of actions\<close>

text \<open>
  The chain of \<open>if action == ...\<close> after the pagination check.  It has no branch for
  \<open>show_more\<close>.  \<open>clear_user_data\<close> of the orchestrator (module
  \<open>agent_orchestrator\<close>, not among the sources) is a parameter: the search contexts it
  leaves.  The branches of \<open>OtherAction\<close>, and \<open>find_product\<close> with an empty keyword
  (questions to the user), are the single effect \<open>OtherHandling\<close>.
\<close>

definition dispatch ::
  "product list \<Rightarrow> (string \<Rightarrow> string option) \<Rightarrow> (image_product \<Rightarrow> bool)
   \<Rightarrow> (product_data \<Rightarrow> bool) \<Rightarrow> (contexts \<Rightarrow> string \<Rightarrow> contexts) \<Rightarrow> contexts \<Rightarrow> string
   \<Rightarrow> action \<Rightarrow> effect list \<times> contexts" where
  "dispatch collection download forward_media range_forward clear_user_data cs phone_number act =
     (case act of
        ShowMore \<Rightarrow> ([], cs)
      | OtherAction \<Rightarrow> ([OtherHandling], cs)
      | ShowAllBrands category_key' min_price max_price \<Rightarrow>
          (case show_all_brands_loop collection download forward_media category_key'
                  min_price max_price priority_brands of
             (total_products_sent, effects) \<Rightarrow>
               ([SendText BrandsIntro] @ effects
                @ (if total_products_sent = 0 then [SendText NoBrandProducts] else []), cs))
      | FindProduct kw category_key' min_price max_price \<Rightarrow>
          let keyword = py_strip kw in
          if keyword = [] then ([OtherHandling], cs)
          else
            (case send_product_images_v2 collection download forward_media keyword 0 10
                    min_price max_price category_key' of
               ((success, total_found, sent_count), effects) \<Rightarrow>
                 if success
                 then (effects,
                       save_search_context cs phone_number keyword total_found sent_count
                         None None None)
                 else (effects @ [SendText (NoProductsFound keyword)], cs))
      | FindProductByRange category' min_price max_price product_name \<Rightarrow>
          find_product_by_range collection range_forward cs phone_number category'
            min_price max_price product_name
      | SaveOrder stored \<Rightarrow>
          if stored then ([SendText OrderConfirmed], clear_user_data cs phone_number)
          else ([SendText OrderFailed], cs))"

text \<open>
  The text-message path of \<open>webhook\<close> for a conversation with no pending question:
  the pagination check on the stored search context, then the dispatch on the action.
\<close>

definition webhook_text ::
  "product list \<Rightarrow> (string \<Rightarrow> string option) \<Rightarrow> (image_product \<Rightarrow> bool)
   \<Rightarrow> (product_data \<Rightarrow> bool) \<Rightarrow> (contexts \<Rightarrow> string \<Rightarrow> contexts) \<Rightarrow> contexts \<Rightarrow> string
   \<Rightarrow> action \<Rightarrow> effect list \<times> contexts" where
  "webhook_text collection download forward_media range_forward clear_user_data cs phone_number act =
     (case get_search_context cs phone_number of
        None \<Rightarrow> dispatch collection download forward_media range_forward clear_user_data
                  cs phone_number act
      | Some search_ctx \<Rightarrow>
          if ctx_sent_count search_ctx < ctx_total_found search_ctx
          then
            (let keyword = ctx_keyword search_ctx;
                 sent_count = ctx_sent_count search_ctx;
                 total_found = ctx_total_found search_ctx
             in if act = ShowMore
                then
                  if sent_count \<ge> total_found
                  then ([SendText (Exhausted total_found keyword)], cs)
                  else
                    (case send_product_images_v2 collection download forward_media keyword
                            sent_count 10 (ctx_min_price search_ctx) (ctx_max_price search_ctx)
                            (ctx_category_key search_ctx) of
                       ((success, new_total, new_sent), effects) \<Rightarrow>
                         if success
                         then (effects,
                               save_search_context cs phone_number keyword new_total
                                 (sent_count + new_sent) (ctx_min_price search_ctx)
                                 (ctx_max_price search_ctx) (ctx_category_key search_ctx))
                         else (effects, cs))
                else dispatch collection download forward_media range_forward clear_user_data
                       cs phone_number act)
          else dispatch collection download forward_media range_forward clear_user_data
                 cs phone_number act)"

definition fossil_catalog :: "product list" where
  "fossil_catalog =
     [example_product ''Fossi_l Grant Chronograph'' ''mens_watch'' (PriceStr ''1500.00'') [''g1.jpg'', ''g2.jpg''],
      example_product ''Fossi_l Neutra'' ''mens_watch'' (PriceStr ''1800.00'') []]"

definition always_download :: "string \<Rightarrow> string option" where
  "always_download u = Some (''b64:'' @ u)"

definition always_forward :: "image_product \<Rightarrow> bool" where
  "always_forward p = True"

definition forget_conversation :: "contexts \<Rightarrow> string \<Rightarrow> contexts" where
  "forget_conversation cs phone_number = cs(phone_number := None)"

definition no_contexts :: contexts where
  "no_contexts = Map.empty"

definition exhausted_contexts :: contexts where
  "exhausted_contexts =
     save_search_context no_contexts ''919800000001'' ''fossil'' 3 3 None None None"


text \<open>Two products with one image each; the image of the first does not download.\<close>

definition shift_catalog :: "product list" where
  "shift_catalog =
     [example_product ''Fossi_l Minimalist'' ''mens_watch'' (PriceStr ''1200.00'') [''bad.jpg''],
      example_product ''Fossi_l Townsman'' ''mens_watch'' (PriceStr ''1900.00'') [''good.jpg'']]"

definition selective_download :: "string \<Rightarrow> string option" where
  "selective_download u = (if u = ''bad.jpg'' then None else Some (''b64:'' @ u))"

section \<open>Evaluation lemmas for the price coercion\<close>

lemma toDouble_examples:
  "toDouble (PriceStr ''1500.00'') = Inr (Some 1500)"
  "toDouble (PriceStr ''1600'') = Inr (Some 1600)"
  "toDouble (PriceStr ''2000.50'') = Inr (Some (4001 / 2))"
  "toDouble (PriceStr ''1499.50'') = Inr (Some (2999 / 2))"
  "toDouble (PriceStr ''999.00'') = Inr (Some 999)"
  "toDouble (PriceStr ''10000.00'') = Inr (Some 10000)"
  "toDouble (PriceNum 2000) = Inr (Some 2000)"
  by code_simp+

text \<open>The coercion rounds: this text denotes a number above 2000 and is the double 2000.\<close>

lemma toDouble_rounds:
  "toDouble (PriceStr ''2000.0000000000001'') = Inr (Some 2000)"
  "toDouble (PriceStr ''0.1'') = Inr (Some (3602879701896397 / 36028797018963968))"
  "toDouble (PriceStr ''1e3'') = Inr (Some 1000)"
  "toDouble (PriceStr ''N/A'') = Inl OperationFailure"
  by code_simp+

section \<open>Evaluation lemmas for the normalizer\<close>

lemmas normalizer_defs =
  normalize_brand_name_def BRAND_MAPPING_def py_strip_def py_lower_def lower_char_def latin1_capitals_def is_space_def

lemma normalize_brand_name_keys:
  "normalize_brand_name ''fossil'' = ''fossi_l''"
  "normalize_brand_name ''tissot'' = ''tisso_t''"
  "normalize_brand_name ''armani'' = ''arman_i''"
  "normalize_brand_name ''tommy'' = ''tomm_y''"
  "normalize_brand_name ''tommy hilfiger'' = ''tomm_y''"
  "normalize_brand_name ''rolex'' = ''role_x''"
  "normalize_brand_name ''rado'' = ''rad_o''"
  "normalize_brand_name ''omega'' = ''omeg_a''"
  "normalize_brand_name ''patek'' = ''Patek_Philippe''"
  "normalize_brand_name ''patek philippe'' = ''Patek_Philippe''"
  "normalize_brand_name ''patek phillips'' = ''Patek_Philippe''"
  "normalize_brand_name ''hublot'' = ''hublo_t''"
  "normalize_brand_name ''cartier'' = ''cartie_r''"
  "normalize_brand_name ''ap'' = ''Audemars''"
  "normalize_brand_name ''audemars'' = ''Audemars''"
  "normalize_brand_name ''tag'' = ''tag''"
  "normalize_brand_name ''tag heuer'' = ''tag''"
  "normalize_brand_name ''tag huer'' = ''tag''"
  "normalize_brand_name ''mk'' = ''mic''"
  "normalize_brand_name ''michael kors'' = ''mic''"
  "normalize_brand_name ''alix'' = ''alix''"
  "normalize_brand_name ''naviforce'' = ''naviforce''"
  "normalize_brand_name ''reward'' = ''reward''"
  "normalize_brand_name ''ax'' = ''ax''"
  "normalize_brand_name ''armani exchange'' = ''arman_i''"
  by (simp_all add: normalizer_defs)

text \<open>
  The database-format values that are not themselves keys.  No key is a substring of
  any of them except for \<open>patek\<close> in \<open>patek_philippe\<close> and \<open>mic\<close> in
  \<open>michael kors\<close>, and those two substring hits give the value back.
\<close>

lemma normalize_brand_name_values:
  "normalize_brand_name ''fossi_l'' = ''fossi_l''"
  "normalize_brand_name ''tisso_t'' = ''tisso_t''"
  "normalize_brand_name ''arman_i'' = ''arman_i''"
  "normalize_brand_name ''tomm_y'' = ''tomm_y''"
  "normalize_brand_name ''role_x'' = ''role_x''"
  "normalize_brand_name ''rad_o'' = ''rad_o''"
  "normalize_brand_name ''omeg_a'' = ''omeg_a''"
  "normalize_brand_name ''Patek_Philippe'' = ''Patek_Philippe''"
  "normalize_brand_name ''hublo_t'' = ''hublo_t''"
  "normalize_brand_name ''cartie_r'' = ''cartie_r''"
  "normalize_brand_name ''Audemars'' = ''Audemars''"
  "normalize_brand_name ''mic'' = ''mic''"
  by (simp_all add: normalizer_defs)

section \<open>Claims about the normalizer\<close>

text \<open>
  C4.  For every entry of the static brand table, user-facing key or database-format
  value, normalizing twice gives the same token as normalizing once.
\<close>

theorem normalize_brand_name_idempotent_on_table:
  "\<forall>x \<in> set (map fst BRAND_MAPPING @ map snd BRAND_MAPPING).
     normalize_brand_name (normalize_brand_name x) = normalize_brand_name x"
  unfolding BRAND_MAPPING_def
  by (simp add: normalize_brand_name_keys normalize_brand_name_values)

theorem normalize_brand_name_idempotent_on_table_witness:
  "''rolex'' \<in> set (map fst BRAND_MAPPING @ map snd BRAND_MAPPING)
   \<and> normalize_brand_name (normalize_brand_name ''rolex'') = normalize_brand_name ''rolex''"
proof -
  have mem: "''rolex'' \<in> set (map fst BRAND_MAPPING @ map snd BRAND_MAPPING)"
    by (simp add: BRAND_MAPPING_def)
  from normalize_brand_name_idempotent_on_table mem
  have "normalize_brand_name (normalize_brand_name ''rolex'') = normalize_brand_name ''rolex''"
    by (rule bspec)
  with mem show ?thesis
    by blast
qed

section \<open>Soundness of the store scan\<close>

lemma matches_all_member:
  "matches_all cs d = Inr True \<Longrightarrow> c \<in> set cs \<Longrightarrow> matches c d = Inr True"
  by (induction cs) (auto split: sum.splits if_splits)

lemma scan_sound:
  "scan cs remaining ds = Inr rs \<Longrightarrow> p \<in> set rs \<Longrightarrow> p \<in> set ds \<and> matches_all cs p = Inr True"
proof (induction ds arbitrary: remaining rs)
  case Nil
  then show ?case by simp
next
  case (Cons d ds)
  show ?case
  proof (cases "remaining = Some 0")
    case True
    with Cons.prems show ?thesis by simp
  next
    case False
    show ?thesis
    proof (cases "matches_all cs d")
      case (Inl e)
      with False Cons.prems show ?thesis by simp
    next
      case (Inr b)
      show ?thesis
      proof (cases b)
        case True
        with False Inr Cons.prems obtain rs' where
          rs': "scan cs (map_option (\<lambda>k. k - 1) remaining) ds = Inr rs'" and rs: "rs = d # rs'"
          by (auto split: sum.splits)
        from Cons.prems(2) rs have "p = d \<or> p \<in> set rs'" by auto
        then show ?thesis
        proof
          assume "p = d"
          with Inr True show ?thesis by simp
        next
          assume "p \<in> set rs'"
          with Cons.IH [OF rs'] show ?thesis by simp
        qed
      next
        case b: False
        with False Inr Cons.prems have "scan cs remaining ds = Inr rs" by simp
        from Cons.IH [OF this Cons.prems(2)] show ?thesis by simp
      qed
    qed
  qed
qed

lemma find_limit_sound:
  "find_limit collection conds n = Inr rs \<Longrightarrow> p \<in> set rs \<Longrightarrow>
   p \<in> set collection \<and> matches_all conds p = Inr True"
  unfolding find_limit_def by (rule scan_sound)

lemma category_condition_member:
  "truthy category_filter \<Longrightarrow>
   CategoryKeyEq (the category_filter) \<in> set (and_conditions keywords category_filter lo hi)"
  by (simp add: and_conditions_def)

section \<open>Claims about the keyword search\<close>

text \<open>
  C1.  A keyword search called with a (non-empty) category key returns only products
  whose \<open>category_key\<close> is exactly that key, whatever the query, the limit and the
  price bounds: a brand search scoped to one category returns no product of another.
\<close>

theorem search_products_by_text_category_scoped:
  assumes cat: "category_filter = Some c" "c \<noteq> []"
    and res: "search_products_by_text collection query max_results category_filter
                min_price max_price = Inr results"
  shows "\<forall>p \<in> set results. category_key p = c"
proof
  fix p assume p: "p \<in> set results"
  let ?conds = "and_conditions (tokenize query) category_filter min_price max_price"
  from cat have t: "truthy category_filter" by simp
  then have nonempty: "?conds \<noteq> []"
    using category_condition_member [OF t, of "tokenize query" min_price max_price] by auto
  from res t nonempty have "find_limit collection ?conds max_results = Inr results"
    by (simp add: search_products_by_text_def Let_def)
  from find_limit_sound [OF this p] have "matches_all ?conds p = Inr True" by simp
  from matches_all_member [OF this category_condition_member [OF t]] cat
  show "category_key p = c" by simp
qed

lemma tokenize_rolex: "tokenize ''rolex'' = [''rolex'']"
  by (simp add: tokenize_def py_split_def py_strip_def py_lower_def lower_char_def latin1_capitals_def is_space_def)

lemma scoped_search_value:
  "search_products_by_text scoping_catalog ''rolex'' 10 (Some ''mens_watch'') None None
   = Inr [example_product ''Role_x Submariner'' ''mens_watch'' (PriceStr ''2500.00'') []]"
  by (simp add: scoping_catalog_def search_products_by_text_def and_conditions_def tokenize_rolex
      normalize_brand_name_keys build_pattern_def endswith_s_def is_generic_type_def GENERIC_TYPES_def
      find_limit_def cursor_limit_def py_lower_def lower_char_def latin1_capitals_def example_product_def)

theorem search_products_by_text_category_scoped_witness:
  "search_products_by_text scoping_catalog ''rolex'' 10 (Some ''mens_watch'') None None
   = Inr [example_product ''Role_x Submariner'' ''mens_watch'' (PriceStr ''2500.00'') []]
   \<and> category_key (example_product ''Role_x Submariner'' ''mens_watch'' (PriceStr ''2500.00'') [])
       = ''mens_watch''"
proof -
  have ne: "''mens_watch'' \<noteq> []" by simp
  from search_products_by_text_category_scoped [OF refl ne scoped_search_value]
  have "category_key (example_product ''Role_x Submariner'' ''mens_watch'' (PriceStr ''2500.00'') [])
        = ''mens_watch''" by simp
  with scoped_search_value show ?thesis by blast
qed

lemmas string_defs = py_split_def py_strip_def py_lower_def lower_char_def latin1_capitals_def is_space_def

lemma tokenize_examples:
  "tokenize ''watch'' = [''watch'']"
  "tokenize ''watches'' = [''watches'']"
  "tokenize ''watch bags'' = [''watch'', ''bags'']"
  "tokenize ''strap'' = [''strap'']"
  by (simp_all add: tokenize_def string_defs)

lemma normalize_brand_name_examples:
  "normalize_brand_name ''watch'' = ''watch''"
  "normalize_brand_name ''watches'' = ''watches''"
  "normalize_brand_name ''bags'' = ''bags''"
  "normalize_brand_name ''strap'' = ''Audemars''"
  "normalize_brand_name ''vintage'' = ''tag''"
  by (simp_all add: normalizer_defs)

lemma is_generic_type_examples:
  "is_generic_type ''watch''" "is_generic_type ''watches''" "is_generic_type ''bags''"
  "\<not> is_generic_type ''Audemars''"
  by (simp_all add: is_generic_type_def GENERIC_TYPES_def py_lower_def lower_char_def latin1_capitals_def)

lemma build_pattern_examples:
  "build_pattern ''watch'' = map Lit ''watch'' @ [Opt (CHR ''e''), Opt (CHR ''s'')]"
  "build_pattern ''watches'' = map Lit ''watche'' @ [Opt (CHR ''e''), Opt (CHR ''s'')]"
  "build_pattern ''Audemars'' = map Lit ''Audemar'' @ [Opt (CHR ''e''), Opt (CHR ''s'')]"
  by (simp_all add: build_pattern_def endswith_s_def)

lemmas keyword_search_defs =
  search_products_by_text_def and_conditions_def price_conditions_def find_limit_def
  cursor_limit_def example_product_def lower_char_def latin1_capitals_def

text \<open>
  C2.  The claim is that the queries "watch" and "watches" both return a product named
  "Classic Watch".  The query "watch" does; the query "watches" ends in "s", so its
  pattern is the token without the last letter followed by "e?s?", that is
  \<open>watchee?s?\<close>, which needs the letters "watche" in the name and does not match
  "Classic Watch".
\<close>

theorem plural_query_misses_singular_name:
  "search_products_by_text classic_catalog ''watch'' 10 None None None = Inr classic_catalog
   \<and> search_products_by_text classic_catalog ''watches'' 10 None None None = Inr []"
  by (simp add: classic_catalog_def keyword_search_defs tokenize_examples
      normalize_brand_name_examples is_generic_type_examples build_pattern_examples)

text \<open>
  C3.  The claim is that a query left with no keyword token, searched without a
  category, returns the empty list.  The query "watch bags" loses both tokens to the
  generic-type elision; with a price bound and no category the search then runs a query
  whose only condition is the price bound and returns products.
\<close>

theorem generic_only_query_with_price_bound_returns_products:
  "essential_keywords (length (tokenize ''watch bags'')) (tokenize ''watch bags'') = []
   \<and> search_products_by_text classic_catalog ''watch bags'' 10 None (Some 0) None
       = Inr classic_catalog"
  by (simp add: classic_catalog_def keyword_search_defs tokenize_examples
      normalize_brand_name_examples is_generic_type_examples toDouble_examples)

text \<open>
  C10.  There are tokens that are no brand name and that the normalizer still maps to a
  brand's database token, through the substring fallback on the short keys: "strap"
  contains "ap" and becomes "Audemars", "vintage" contains "tag" and becomes "tag".  A
  keyword search for "strap" then filters product names by "Audemars": it returns the
  Audemars watch and not the leather strap.
\<close>

theorem non_brand_token_becomes_brand_token:
  "map_of BRAND_MAPPING ''strap'' = None
   \<and> normalize_brand_name ''strap'' = ''Audemars''
   \<and> normalize_brand_name ''vintage'' = ''tag''
   \<and> search_products_by_text strap_catalog ''strap'' 10 None None None
       = Inr [example_product ''Audemars Royal Oak'' ''mens_watch'' (PriceStr ''5200.00'') [''a1.jpg'']]"
  by (simp add: strap_catalog_def keyword_search_defs tokenize_examples
      normalize_brand_name_examples is_generic_type_examples build_pattern_examples
      BRAND_MAPPING_def)

text \<open>
  Where the empty result does hold: a query with no token of two characters or more, and a
  query whose tokens are all elided when no price bound is given.
\<close>

lemma search_products_by_text_no_tokens:
  "tokenize query = [] \<Longrightarrow> \<not> truthy category_filter \<Longrightarrow>
   search_products_by_text collection query max_results category_filter min_price max_price = Inr []"
  by (simp add: search_products_by_text_def)

lemma search_products_by_text_no_conditions:
  "essential_keywords (length (tokenize query)) (tokenize query) = [] \<Longrightarrow>
   \<not> truthy category_filter \<Longrightarrow>
   search_products_by_text collection query max_results category_filter None None = Inr []"
  by (simp add: search_products_by_text_def and_conditions_def Let_def)

section \<open>Claims about the price-range search\<close>

lemma scan_complete:
  "\<forall>d \<in> set ds. matches_all cs d \<noteq> Inl OperationFailure \<Longrightarrow>
   scan cs remaining ds =
     Inr (case remaining of
            None \<Rightarrow> filter (\<lambda>d. matches_all cs d = Inr True) ds
          | Some k \<Rightarrow> take k (filter (\<lambda>d. matches_all cs d = Inr True) ds))"
proof (induction ds arbitrary: remaining)
  case Nil
  then show ?case by (simp split: option.splits)
next
  case (Cons d ds)
  from Cons.prems have tl: "\<forall>d \<in> set ds. matches_all cs d \<noteq> Inl OperationFailure" by simp
  from Cons.prems obtain b where b: "matches_all cs d = Inr b"
    by (cases "matches_all cs d") (auto, metis error.exhaust)
  show ?case
  proof (cases remaining)
    case None
    with b Cons.IH [OF tl, of None] show ?thesis by simp
  next
    case (Some k)
    show ?thesis
    proof (cases k)
      case 0
      with Some show ?thesis by simp
    next
      case (Suc j)
      with Some b Cons.IH [OF tl, of "Some j"] Cons.IH [OF tl, of "Some (Suc j)"]
      show ?thesis by simp
    qed
  qed
qed

lemma range_conditions_true_iff:
  "matches_all (range_conditions c lo hi) p = Inr True \<longleftrightarrow>
   category_key p = py_lower c
   \<and> (\<exists>r. toDouble (price p) = Inr (Some r) \<and> lo \<le> r \<and> r \<le> hi)"
proof (cases "toDouble (price p)")
  case (Inl e)
  then show ?thesis by (simp add: range_conditions_def)
next
  case (Inr v)
  then show ?thesis by (cases v) (auto simp: range_conditions_def)
qed

lemma range_conditions_no_error:
  assumes "toDouble (price p) \<noteq> Inl OperationFailure"
  shows "matches_all (range_conditions c lo hi) p \<noteq> Inl OperationFailure"
proof (cases "toDouble (price p)")
  case (Inl e)
  with assms show ?thesis by (cases e) simp
next
  case (Inr v)
  then show ?thesis by (simp add: range_conditions_def)
qed

lemma search_products_by_price_range_sound:
  assumes "p \<in> set (search_products_by_price_range collection category' lo hi n)"
  shows "p \<in> set collection \<and> category_key p = py_lower category'
         \<and> (\<exists>r. toDouble (price p) = Inr (Some r) \<and> lo \<le> r \<and> r \<le> hi)"
proof (cases "find_limit collection (range_conditions category' lo hi) n")
  case (Inl e)
  with assms show ?thesis by (simp add: search_products_by_price_range_def)
next
  case (Inr rs)
  with assms have "p \<in> set rs" by (simp add: search_products_by_price_range_def)
  from find_limit_sound [OF Inr this] show ?thesis
    by (simp only: range_conditions_true_iff) 
qed

lemma search_products_by_price_range_complete:
  assumes ok: "\<forall>d \<in> set collection. toDouble (price d) \<noteq> Inl OperationFailure"
    and room: "n = 0 \<or> int (length (filter
                 (\<lambda>d. matches_all (range_conditions category' lo hi) d = Inr True) collection))
               \<le> \<bar>n\<bar>"
    and p: "p \<in> set collection" "category_key p = py_lower category'"
           "toDouble (price p) = Inr (Some r)" "lo \<le> r" "r \<le> hi"
  shows "p \<in> set (search_products_by_price_range collection category' lo hi n)"
proof -
  let ?cs = "range_conditions category' lo hi"
  define fs where "fs = filter (\<lambda>d. matches_all ?cs d = Inr True) collection"
  from ok have "\<forall>d \<in> set collection. matches_all ?cs d \<noteq> Inl OperationFailure"
    using range_conditions_no_error by blast
  from scan_complete [OF this]
  have sc: "scan ?cs (cursor_limit n) collection =
              Inr (case cursor_limit n of None \<Rightarrow> fs | Some k \<Rightarrow> take k fs)"
    unfolding fs_def .
  have "(case cursor_limit n of None \<Rightarrow> fs | Some k \<Rightarrow> take k fs) = fs"
  proof (cases "n = 0")
    case True
    then show ?thesis by (simp add: cursor_limit_def)
  next
    case False
    with room have "length fs \<le> nat \<bar>n\<bar>" unfolding fs_def by linarith
    with False show ?thesis by (simp add: cursor_limit_def)
  qed
  with sc have res: "search_products_by_price_range collection category' lo hi n = fs"
    by (simp add: search_products_by_price_range_def find_limit_def)
  from p have "matches_all ?cs p = Inr True"
    by (simp only: range_conditions_true_iff) blast
  with p(1) have "p \<in> set fs" by (simp add: fs_def)
  with res show ?thesis by simp
qed

lemma search_products_in_range_rejects:
  "rq_min_price request > rq_max_price request \<Longrightarrow>
   \<exists>detail. search_products_in_range request st = (Inl (HTTPException 400 detail), st)"
  by (simp add: search_products_in_range_def)

lemma search_products_in_range_success:
  "search_products_in_range request st = (Inr (Success ps), st') \<Longrightarrow>
   ps = map format_product (search_products_by_price_range (docs st) (rq_category request)
          (rq_min_price request) (rq_max_price request) (rq_max_results request))"
  by (auto simp: search_products_in_range_def Let_def split: if_splits)

text \<open>
  C5, as amended.  The endpoint rejects a request with \<open>min_price > max_price\<close> with
  status 400 and leaves the store untouched; the products of a successful response are
  those of \<open>search_products_by_price_range\<close>; every product that function returns is
  in the collection, has \<open>category_key\<close> equal to the lower-cased requested category
  and a numeric price in the closed interval from \<open>min_price\<close> to \<open>max_price\<close>; and
  a product of that category priced exactly at either bound is returned, provided no
  stored price is non-numeric text and the documents that match the category and the
  price bounds are not more than the limit (a limit of zero is no limit).  The numeric
  price is the double that \<open>$toDouble\<close> gives for the stored price.
\<close>

theorem price_range_search_correct:
  "(rq_min_price request > rq_max_price request \<longrightarrow>
      (\<exists>detail. search_products_in_range request st = (Inl (HTTPException 400 detail), st)))
   \<and> (\<forall>ps st'. search_products_in_range request st = (Inr (Success ps), st') \<longrightarrow>
          ps = map format_product
                 (search_products_by_price_range (docs st) (rq_category request)
                    (rq_min_price request) (rq_max_price request) (rq_max_results request)))
   \<and> (\<forall>p \<in> set (search_products_by_price_range collection category' lo hi n).
          p \<in> set collection \<and> category_key p = py_lower category'
          \<and> (\<exists>r. toDouble (price p) = Inr (Some r) \<and> lo \<le> r \<and> r \<le> hi))
   \<and> (\<forall>p \<in> set collection.
          (\<forall>d \<in> set collection. toDouble (price d) \<noteq> Inl OperationFailure)
          \<and> (n = 0 \<or> int (length (filter
                   (\<lambda>d. matches_all (range_conditions category' lo hi) d = Inr True)
                   collection)) \<le> \<bar>n\<bar>)
          \<and> category_key p = py_lower category' \<and> lo \<le> hi
          \<and> (toDouble (price p) = Inr (Some lo) \<or> toDouble (price p) = Inr (Some hi))
          \<longrightarrow> p \<in> set (search_products_by_price_range collection category' lo hi n))"
proof (intro conjI)
  show "rq_min_price request > rq_max_price request \<longrightarrow>
      (\<exists>detail. search_products_in_range request st = (Inl (HTTPException 400 detail), st))"
    using search_products_in_range_rejects by blast
next
  show "\<forall>ps st'. search_products_in_range request st = (Inr (Success ps), st') \<longrightarrow>
          ps = map format_product
                 (search_products_by_price_range (docs st) (rq_category request)
                    (rq_min_price request) (rq_max_price request) (rq_max_results request))"
    using search_products_in_range_success by blast
next
  show "\<forall>p \<in> set (search_products_by_price_range collection category' lo hi n).
          p \<in> set collection \<and> category_key p = py_lower category'
          \<and> (\<exists>r. toDouble (price p) = Inr (Some r) \<and> lo \<le> r \<and> r \<le> hi)"
    using search_products_by_price_range_sound by blast
next
  show "\<forall>p \<in> set collection.
          (\<forall>d \<in> set collection. toDouble (price d) \<noteq> Inl OperationFailure)
          \<and> (n = 0 \<or> int (length (filter
                   (\<lambda>d. matches_all (range_conditions category' lo hi) d = Inr True)
                   collection)) \<le> \<bar>n\<bar>)
          \<and> category_key p = py_lower category' \<and> lo \<le> hi
          \<and> (toDouble (price p) = Inr (Some lo) \<or> toDouble (price p) = Inr (Some hi))
          \<longrightarrow> p \<in> set (search_products_by_price_range collection category' lo hi n)"
  proof (intro ballI impI)
    fix p
    assume p: "p \<in> set collection"
      and h: "(\<forall>d \<in> set collection. toDouble (price d) \<noteq> Inl OperationFailure)
          \<and> (n = 0 \<or> int (length (filter
                   (\<lambda>d. matches_all (range_conditions category' lo hi) d = Inr True)
                   collection)) \<le> \<bar>n\<bar>)
          \<and> category_key p = py_lower category' \<and> lo \<le> hi
          \<and> (toDouble (price p) = Inr (Some lo) \<or> toDouble (price p) = Inr (Some hi))"
    from h have "toDouble (price p) = Inr (Some lo) \<or> toDouble (price p) = Inr (Some hi)"
      by blast
    then show "p \<in> set (search_products_by_price_range collection category' lo hi n)"
    proof
      assume "toDouble (price p) = Inr (Some lo)"
      with h p show ?thesis
        using search_products_by_price_range_complete
          [where collection = collection and n = n and p = p and r = lo and lo = lo and hi = hi]
        by simp
    next
      assume "toDouble (price p) = Inr (Some hi)"
      with h p show ?thesis
        using search_products_by_price_range_complete
          [where collection = collection and n = n and p = p and r = hi and lo = lo and hi = hi]
        by simp
    qed
  qed
qed

lemma py_lower_MENS_WATCH: "py_lower ''MENS_WATCH'' = ''mens_watch''"
  by (simp add: py_lower_def lower_char_def latin1_capitals_def)

lemma range_search_value:
  "search_products_by_price_range range_catalog ''MENS_WATCH'' 1500 2000 50 =
     [example_product ''Fossi_l Grant'' ''mens_watch'' (PriceStr ''1500.00'') [''g1.jpg''],
      example_product ''Tisso_t PRX'' ''mens_watch'' (PriceNum 2000) [''p1.jpg'']]"
  by (simp add: search_products_by_price_range_def range_conditions_def find_limit_def
      cursor_limit_def range_catalog_def example_product_def py_lower_MENS_WATCH
      toDouble_examples)

text \<open>
  The claim as stated, with \<open>category_key\<close> exactly equal to the requested category,
  fails: the request for the category "MENS_WATCH" is accepted and answered with products
  whose \<open>category_key\<close> is "mens_watch".
\<close>

theorem price_range_category_is_lowercased:
  "fst (search_products_in_range (range_request ''MENS_WATCH'' 1500 2000 50)
          \<lparr>docs = range_catalog, queries = 0\<rparr>)
   = Inr (Success (map format_product
       [example_product ''Fossi_l Grant'' ''mens_watch'' (PriceStr ''1500.00'') [''g1.jpg''],
        example_product ''Tisso_t PRX'' ''mens_watch'' (PriceNum 2000) [''p1.jpg'']]))
   \<and> category_key (example_product ''Fossi_l Grant'' ''mens_watch'' (PriceStr ''1500.00'') [''g1.jpg''])
       \<noteq> ''MENS_WATCH''"
  by (simp add: search_products_in_range_def range_request_def range_search_value py_strip_def
      is_space_def Let_def) (simp add: example_product_def)

theorem price_range_search_correct_witness:
  "rq_min_price (range_request ''mens_watch'' 2000 1500 50)
     > rq_max_price (range_request ''mens_watch'' 2000 1500 50)
   \<and> snd (search_products_in_range (range_request ''mens_watch'' 2000 1500 50)
            \<lparr>docs = range_catalog, queries = 0\<rparr>) = \<lparr>docs = range_catalog, queries = 0\<rparr>
   \<and> example_product ''Fossi_l Grant'' ''mens_watch'' (PriceStr ''1500.00'') [''g1.jpg'']
       \<in> set (search_products_by_price_range range_catalog ''MENS_WATCH'' 1500 2000 50)
   \<and> category_key (example_product ''Fossi_l Grant'' ''mens_watch'' (PriceStr ''1500.00'') [''g1.jpg''])
       = py_lower ''MENS_WATCH''
   \<and> int (length range_catalog) > \<bar>2\<bar>
   \<and> example_product ''Fossi_l Grant'' ''mens_watch'' (PriceStr ''1500.00'') [''g1.jpg'']
       \<in> set (search_products_by_price_range range_catalog ''mens_watch'' 1500 2000 2)
   \<and> example_product ''Tisso_t PRX'' ''mens_watch'' (PriceNum 2000) [''p1.jpg'']
       \<in> set (search_products_by_price_range range_catalog ''mens_watch'' 1500 2000 2)"
proof -
  let ?rq = "range_request ''mens_watch'' 2000 1500 50"
  let ?st = "\<lparr>docs = range_catalog, queries = 0\<rparr>"
  let ?A = "example_product ''Fossi_l Grant'' ''mens_watch'' (PriceStr ''1500.00'') [''g1.jpg'']"
  let ?B = "example_product ''Tisso_t PRX'' ''mens_watch'' (PriceNum 2000) [''p1.jpg'']"
  have rej: "rq_min_price ?rq > rq_max_price ?rq" by (simp add: range_request_def)
  have memA: "?A \<in> set (search_products_by_price_range range_catalog ''MENS_WATCH'' 1500 2000 50)"
    by (simp add: range_search_value)
  have inA: "?A \<in> set range_catalog" by (simp add: range_catalog_def)
  have inB: "?B \<in> set range_catalog" by (simp add: range_catalog_def)
  have ok: "\<forall>d \<in> set range_catalog. toDouble (price d) \<noteq> Inl OperationFailure"
    by (simp add: range_catalog_def example_product_def toDouble_examples)
  have lc: "py_lower ''mens_watch'' = ''mens_watch''"
    by (simp add: py_lower_def lower_char_def latin1_capitals_def)
  have room: "(2::int) = 0 \<or> int (length (filter
                 (\<lambda>d. matches_all (range_conditions ''mens_watch'' 1500 2000) d = Inr True)
                 range_catalog)) \<le> \<bar>2\<bar>"
    by (simp add: range_catalog_def example_product_def range_conditions_def lc toDouble_examples)
  have cut: "int (length range_catalog) > \<bar>2\<bar>" by (simp add: range_catalog_def)
  have catA: "category_key ?A = py_lower ''mens_watch''"
    by (simp add: example_product_def lc)
  have catB: "category_key ?B = py_lower ''mens_watch''"
    by (simp add: example_product_def lc)
  have priceA: "toDouble (price ?A) = Inr (Some 1500) \<or> toDouble (price ?A) = Inr (Some 2000)"
    by (simp add: example_product_def toDouble_examples)
  have priceB: "toDouble (price ?B) = Inr (Some 1500) \<or> toDouble (price ?B) = Inr (Some 2000)"
    by (simp add: example_product_def toDouble_examples)
  have le: "(1500::rat) \<le> 2000" by simp
  note t1 = price_range_search_correct
    [of ?rq ?st range_catalog "''MENS_WATCH''" 1500 2000 50]
  note t2 = price_range_search_correct
    [of ?rq ?st range_catalog "''mens_watch''" 1500 2000 2]
  from t1 rej obtain detail where
    "search_products_in_range ?rq ?st = (Inl (HTTPException 400 detail), ?st)" by blast
  then have c1: "snd (search_products_in_range ?rq ?st) = ?st" by simp
  from t1 memA have c2: "category_key ?A = py_lower ''MENS_WATCH''" by blast
  from t2 inA ok room catA priceA le
  have c3: "?A \<in> set (search_products_by_price_range range_catalog ''mens_watch'' 1500 2000 2)"
    by blast
  from t2 inB ok room catB priceB le
  have c4: "?B \<in> set (search_products_by_price_range range_catalog ''mens_watch'' 1500 2000 2)"
    by blast
  from rej c1 memA c2 cut c3 c4 show ?thesis by blast
qed

text \<open>
  A price stored as text just above the upper bound is the double of the bound itself,
  and the product is returned.
\<close>

lemma price_text_rounds_onto_bound:
  "search_products_by_price_range
     [example_product ''Tisso_t Le Locle'' ''mens_watch'' (PriceStr ''2000.0000000000001'') []]
     ''mens_watch'' 1500 2000 50
   = [example_product ''Tisso_t Le Locle'' ''mens_watch'' (PriceStr ''2000.0000000000001'') []]"
  by (simp add: search_products_by_price_range_def range_conditions_def find_limit_def
      cursor_limit_def example_product_def py_lower_def lower_char_def latin1_capitals_def
      toDouble_rounds)

section \<open>Claims about the vector and hybrid search\<close>

lemma ranked_value:
  "ranked dot [1, 0] vector_catalog =
     [(indexed_product ''Budget Black'' (PriceStr ''999.00'') [1, 0], 1),
      (indexed_product ''Luxury Black'' (PriceStr ''10000.00'') [1, 1], 1)]"
  by (simp add: ranked_def scored_def vector_catalog_def indexed_product_def dot_def)

lemma py_str_2000: "py_str 2000 = ''2000''"
  by (simp add: py_str_def nat_digits.simps digit_char_def)

text \<open>
  C6.  The claim includes that every returned product has a numeric price of at most the
  price ceiling.  The match stage compares the stored price with \<open>str(price_max)\<close> as
  text: with the ceiling 2000 the product priced "10000.00" passes ("10000.00" sorts
  before "2000") and the product priced "999.00" is dropped.
\<close>

theorem hybrid_search_price_ceiling_is_textual:
  "hybrid_search dot unit_embedding vector_catalog ''black watch'' (Some (price_ceiling 2000)) 5
     = [(indexed_product ''Luxury Black'' (PriceStr ''10000.00'') [1, 1], 1)]
   \<and> toDouble (PriceStr ''10000.00'') = Inr (Some 10000)
   \<and> toDouble (PriceStr ''999.00'') = Inr (Some 999)"
  by (simp add: hybrid_search_def generate_text_embedding_def unit_embedding_def vectorSearch_def
      ranked_value match_stage_def price_ceiling_def py_str_2000 indexed_product_def
      toDouble_examples)

text \<open>The parts of the claim that hold on the pipeline.\<close>

lemma hybrid_search_length:
  "length (hybrid_search sim embed_content collection query fs limit) \<le> nat limit"
  by (simp add: hybrid_search_def Let_def split: sum.splits)

lemma hybrid_search_candidates:
  assumes "r \<in> set (hybrid_search sim embed_content collection query fs limit)"
  shows "r \<in> set (take (nat (limit * 3))
                   (ranked sim (generate_text_embedding embed_content query) collection))
         \<and> list_all (\<lambda>c. match_cond_holds c (fst r)) (match_stage fs)"
proof -
  let ?q = "generate_text_embedding embed_content query"
  from assms have ne: "?q \<noteq> []"
    by (auto simp: hybrid_search_def Let_def)
  show ?thesis
  proof (cases "vectorSearch sim collection ?q 200 (limit * 3)")
    case (Inl e)
    with assms ne show ?thesis by (simp add: hybrid_search_def Let_def)
  next
    case (Inr candidates)
    then have c: "candidates = take (nat (limit * 3)) (ranked sim ?q collection)"
      by (auto simp: vectorSearch_def split: if_splits)
    from assms ne Inr
    have "r \<in> set (take (nat limit)
             (filter (\<lambda>r. list_all (\<lambda>c. match_cond_holds c (fst r)) (match_stage fs)) candidates))"
      by (simp add: hybrid_search_def Let_def)
    then have "r \<in> set (filter (\<lambda>r. list_all (\<lambda>c. match_cond_holds c (fst r)) (match_stage fs))
                           candidates)"
      by (rule in_set_takeD)
    with c show ?thesis by simp
  qed
qed

lemma ranked_descending: "sorted_wrt (\<lambda>a b. snd b \<le> snd a) (ranked sim q collection)"
proof -
  have "sorted (map (\<lambda>r. - snd r) (ranked sim q collection))"
    unfolding ranked_def by (rule sorted_sort_key)
  then show ?thesis by (simp add: sorted_map)
qed

lemma hybrid_search_descending:
  "sorted_wrt (\<lambda>a b. snd b \<le> snd a) (hybrid_search sim embed_content collection query fs limit)"
proof -
  let ?q = "generate_text_embedding embed_content query"
  have "sorted_wrt (\<lambda>a b. snd b \<le> snd a)
          (take k (filter P (take m (ranked sim ?q collection))))" for k m P
    by (intro sorted_wrt_take sorted_wrt_filter ranked_descending)
  then show ?thesis
    by (auto simp: hybrid_search_def Let_def vectorSearch_def split: sum.splits if_splits)
qed

text \<open>
  While three times the limit is within the 100 candidates of \<open>vector_search\<close>, the
  results of \<open>hybrid_search\<close> are among those of \<open>vector_search\<close> with three times
  the limit.
\<close>

lemma hybrid_search_subset_vector_search:
  assumes "0 < limit" "limit * 3 \<le> 100"
  shows "set (hybrid_search sim embed_content collection query fs limit)
         \<subseteq> set (vector_search sim embed_content collection query (limit * 3))"
proof
  fix r assume r: "r \<in> set (hybrid_search sim embed_content collection query fs limit)"
  then have ne: "generate_text_embedding embed_content query \<noteq> []"
    by (auto simp: hybrid_search_def Let_def)
  from hybrid_search_candidates [OF r]
  have "r \<in> set (take (nat (limit * 3))
                  (ranked sim (generate_text_embedding embed_content query) collection))"
    by simp
  with assms ne show "r \<in> set (vector_search sim embed_content collection query (limit * 3))"
    by (simp add: vector_search_def vectorSearch_def Let_def)
qed

text \<open>
  C7.  When the embedding call raises or returns no vector for the query, both
  \<open>vector_search\<close> and \<open>hybrid_search\<close> return the empty list.
\<close>

theorem empty_embedding_gives_empty_results:
  assumes "embed_content query = None \<or> embed_content query = Some []"
  shows "vector_search sim embed_content collection query limit = []
         \<and> hybrid_search sim embed_content collection query fs limit' = []"
proof -
  from assms have "generate_text_embedding embed_content query = []"
    by (auto simp: generate_text_embedding_def)
  then show ?thesis
    by (simp add: vector_search_def hybrid_search_def)
qed

theorem empty_embedding_gives_empty_results_witness:
  "(failing_embedding ''black watch'' = None \<or> failing_embedding ''black watch'' = Some [])
   \<and> vector_search dot failing_embedding vector_catalog ''black watch'' 5 = []
   \<and> hybrid_search dot failing_embedding vector_catalog ''black watch''
        (Some (price_ceiling 2000)) 5 = []"
proof -
  have h: "failing_embedding ''black watch'' = None \<or> failing_embedding ''black watch'' = Some []"
    by (simp add: failing_embedding_def)
  from empty_embedding_gives_empty_results
         [of failing_embedding "''black watch''" dot vector_catalog 5 "Some (price_ceiling 2000)" 5, OF h] h
  show ?thesis by blast
qed

section \<open>Claims about pagination\<close>

lemma exhausted_show_more_is_silent:
  assumes "get_search_context cs phone_number = Some ctx"
    and "ctx_total_found ctx \<le> ctx_sent_count ctx"
  shows "webhook_text collection download forward_media range_forward clear_user_data
           cs phone_number ShowMore = ([], cs)"
  using assms by (simp add: webhook_text_def dispatch_def)

lemma send_product_images_v2_effects:
  "SendText (Exhausted n k) \<notin> set (snd (send_product_images_v2 collection download forward_media
      keyword start_index batch_size min_price max_price category_key'))"
  by (auto simp: send_product_images_v2_def Let_def split: sum.splits images_response.splits)

lemma show_all_brands_loop_effects:
  "SendText (Exhausted n k) \<notin> set (snd (show_all_brands_loop collection download forward_media
      category_key' min_price max_price brands))"
proof (induction brands)
  case Nil
  then show ?case by simp
next
  case (Cons b brands)
  obtain success total sent effects where
    s: "send_product_images_v2 collection download forward_media b 0 3 min_price max_price
          category_key' = ((success, total, sent), effects)"
    by (metis prod.exhaust)
  obtain m later where
    l: "show_all_brands_loop collection download forward_media category_key' min_price max_price
          brands = (m, later)"
    by (metis prod.exhaust)
  from send_product_images_v2_effects
         [of n k collection download forward_media b 0 3 min_price max_price category_key'] s
  have "SendText (Exhausted n k) \<notin> set effects" by simp
  moreover from Cons.IH l have "SendText (Exhausted n k) \<notin> set later" by simp
  ultimately show ?case using s l by simp
qed

lemma find_product_by_range_effects:
  "SendText (Exhausted n k) \<notin> set (fst (find_product_by_range collection range_forward cs
      phone_number category' min_price max_price product_name))"
  by (auto simp: find_product_by_range_def Let_def split: sum.splits range_response.splits)

lemma dispatch_effects:
  "SendText (Exhausted n k) \<notin> set (fst (dispatch collection download forward_media range_forward
      clear_user_data cs phone_number act))"
proof (cases act)
  case ShowMore
  then show ?thesis by (simp add: dispatch_def)
next
  case (FindProduct kw c lo hi)
  obtain success total sent effects where
    s: "send_product_images_v2 collection download forward_media (py_strip kw) 0 10 lo hi c
        = ((success, total, sent), effects)"
    by (metis prod.exhaust)
  from send_product_images_v2_effects
         [of n k collection download forward_media "py_strip kw" 0 10 lo hi c] s
  have "SendText (Exhausted n k) \<notin> set effects" by simp
  with FindProduct s show ?thesis by (simp add: dispatch_def Let_def)
next
  case (ShowAllBrands c lo hi)
  obtain m effects where
    l: "show_all_brands_loop collection download forward_media c lo hi priority_brands
        = (m, effects)"
    by (metis prod.exhaust)
  from show_all_brands_loop_effects
         [of n k collection download forward_media c lo hi priority_brands] l
  have "SendText (Exhausted n k) \<notin> set effects" by simp
  with ShowAllBrands l show ?thesis by (simp add: dispatch_def)
next
  case (FindProductByRange c lo hi pn)
  then show ?thesis by (simp add: dispatch_def find_product_by_range_effects)
next
  case (SaveOrder stored)
  then show ?thesis by (simp add: dispatch_def)
next
  case OtherAction
  then show ?thesis by (simp add: dispatch_def)
qed

text \<open>The exhaustion message is in a branch that no input reaches.\<close>

lemma exhaustion_message_never_sent:
  "SendText (Exhausted n k) \<notin> set (fst (webhook_text collection download forward_media
      range_forward clear_user_data cs phone_number act))"
proof (cases "get_search_context cs phone_number")
  case None
  then show ?thesis by (simp add: webhook_text_def dispatch_effects)
next
  case (Some ctx)
  show ?thesis
  proof (cases "ctx_sent_count ctx < ctx_total_found ctx \<and> act = ShowMore")
    case False
    with Some show ?thesis by (auto simp: webhook_text_def Let_def dispatch_effects)
  next
    case True
    obtain success total sent effects where
      s: "send_product_images_v2 collection download forward_media (ctx_keyword ctx)
            (ctx_sent_count ctx) 10 (ctx_min_price ctx) (ctx_max_price ctx) (ctx_category_key ctx)
          = ((success, total, sent), effects)"
      by (metis prod.exhaust)
    from send_product_images_v2_effects [of n k collection download forward_media "ctx_keyword ctx"
        "ctx_sent_count ctx" 10 "ctx_min_price ctx" "ctx_max_price ctx" "ctx_category_key ctx"] s
    have "SendText (Exhausted n k) \<notin> set effects" by simp
    with Some True s show ?thesis by (simp add: webhook_text_def Let_def)
  qed
qed

lemma exhausted_contexts_value:
  "get_search_context exhausted_contexts ''919800000001'' =
     Some \<lparr>ctx_keyword = ''fossil'', ctx_total_found = 3, ctx_sent_count = 3,
           ctx_min_price = None, ctx_max_price = None, ctx_category_key = None\<rparr>"
  by (simp add: exhausted_contexts_def save_search_context_def get_search_context_def)

text \<open>
  C8.  The claim is that a show-more request on a session with
  \<open>sent_count \<ge> total_found\<close> gets the explicit exhaustion message and starts no search.
  On the session with 3 of 3 products sent, the handler starts no search, and it sends
  nothing at all: the exhaustion message sits inside the branch guarded by
  \<open>sent_count < total_found\<close>, and the chain of actions that the exhausted session falls
  through to has no branch for \<open>show_more\<close>.
\<close>

theorem exhausted_session_show_more_sends_nothing:
  "get_search_context exhausted_contexts ''919800000001'' =
     Some \<lparr>ctx_keyword = ''fossil'', ctx_total_found = 3, ctx_sent_count = 3,
           ctx_min_price = None, ctx_max_price = None, ctx_category_key = None\<rparr>
   \<and> webhook_text fossil_catalog always_download always_forward no_forward_media
        forget_conversation exhausted_contexts ''919800000001'' ShowMore
       = ([], exhausted_contexts)"
  using exhausted_show_more_is_silent [OF exhausted_contexts_value] exhausted_contexts_value
  by simp

section \<open>Claims about the recorded total\<close>



lemma length_image_results: "length (image_results b m) \<le> length m"
  by (induction m) auto













text \<open>With the handler of \<open>main.py\<close> no range product is delivered and no session is saved.\<close>

lemma find_product_by_range_saves_nothing:
  "snd (find_product_by_range collection no_forward_media cs phone_number category'
          min_price max_price product_name) = cs"
  by (auto simp: find_product_by_range_def Let_def range_send_single_product_def
           no_forward_media_def split: sum.splits range_response.splits)


lemma tokenize_fossil: "tokenize ''fossil'' = [''fossil'']"
  by (simp add: tokenize_def py_split_def py_strip_def py_lower_def lower_char_def
      latin1_capitals_def is_space_def)

lemma py_strip_fossil: "py_strip ''fossil'' = ''fossil''"
  by (simp add: py_strip_def is_space_def)

lemmas fossil_search_defs =
  search_products_by_text_def and_conditions_def tokenize_fossil normalize_brand_name_keys
  build_pattern_def endswith_s_def is_generic_type_def GENERIC_TYPES_def find_limit_def
  cursor_limit_def py_lower_def lower_char_def latin1_capitals_def example_product_def

lemma fossil_search_values:
  "search_products_by_text fossil_catalog ''fossil'' 0 None None None = Inr fossil_catalog"
  "search_products_by_text fossil_catalog ''fossil'' 50 None None None = Inr fossil_catalog"
  "search_products_by_text shift_catalog ''fossil'' 50 None None None = Inr shift_catalog"
  by (simp_all add: fossil_catalog_def shift_catalog_def fossil_search_defs)





text \<open>
  What the count is not: when the only image of the first product does not download, the
  response holds the first product with the image of the second, and leaves out the
  second, whose image did download.
\<close>

lemma failed_download_shifts_images:
  "search_and_get_images shift_catalog selective_download ''fossil'' 50 None None
   = Inr (ImagesSuccess
       [\<lparr>ip_product_name = ''Fossi_l Minimalist'', ip_price = PriceStr ''1200.00'',
         ip_product_url = [], ip_images_base64 = [''b64:good.jpg''], ip_total_images = 1\<rparr>])"
  by (simp add: search_and_get_images_def py_strip_fossil fossil_search_values)
     (simp add: shift_catalog_def example_product_def all_image_urls_def
      download_all_images_parallel_def map_filter_simps selective_download_def
      product_images_def)



end
